theory Spec2Isabelle
  imports Complex_Main "HOL-Library.Word"
begin

unbundle bit_operations_syntax

section \<open>Common conventions\<close>

text \<open>
  Python \<^verbatim>\<open>float\<close> values are idealised as \<^typ>\<open>real\<close>: the arithmetic of the
  scoring code is modelled exactly, without rounding, NaN or infinities.
  Timestamps (\<^verbatim>\<open>datetime\<close> values in UTC) are integers: microseconds since the
  epoch.  An exception raised by the source is a value of \<open>py_exn\<close>; a function
  that may raise returns \<open>py_exn + 'a\<close>, a function that catches every exception
  returns its fallback value on \<open>Inl\<close>.
\<close>

datatype py_exn =
    TypeError
  | AttributeError
  | ValueError
  | KeyError
  | UnicodeEncodeError
  | JSONDecodeError
  | NotFittedError
  | OtherError

text \<open>Sequencing of steps that may raise: the first exception ends the computation.\<close>

definition and_then :: "py_exn + 'a \<Rightarrow> ('a \<Rightarrow> py_exn + 'b) \<Rightarrow> py_exn + 'b" where
  "and_then r f = (case r of Inl e \<Rightarrow> Inl e | Inr v \<Rightarrow> f v)"

section \<open>Session model (app/models/session.py)\<close>

datatype SessionStatus = ACTIVE | EXPIRED | REVOKED | INVALIDATED

text \<open>\<open>SessionStatus\<close> is a string enumeration; this is the string of each member.\<close>

fun status_value :: "SessionStatus \<Rightarrow> string" where
  "status_value ACTIVE = ''active''"
| "status_value EXPIRED = ''expired''"
| "status_value REVOKED = ''revoked''"
| "status_value INVALIDATED = ''invalidated''"

record Session =
  is_active :: bool
  status :: SessionStatus
  expires_at :: int
  revoked_at :: "int option"
  last_activity_at :: int

text \<open>
  A row created with only its expiry given: the column defaults set the active flag,
  the status \<open>ACTIVE\<close>, no revocation time, and the creation time as last activity.
\<close>

definition new_session :: "int \<Rightarrow> int \<Rightarrow> Session" where
  "new_session expires now =
     \<lparr>is_active = True, status = ACTIVE, expires_at = expires,
      revoked_at = None, last_activity_at = now\<rparr>"

text \<open>Every method reads the clock; the current time is the extra argument \<open>now\<close>.\<close>

definition is_expired :: "Session \<Rightarrow> int \<Rightarrow> bool" where
  "is_expired s now = (now > expires_at s)"

definition is_valid :: "Session \<Rightarrow> int \<Rightarrow> bool" where
  "is_valid s now = (is_active s \<and> \<not> is_expired s now \<and> status s = ACTIVE)"

definition revoke :: "Session \<Rightarrow> int \<Rightarrow> Session" where
  "revoke s now = s\<lparr>is_active := False, status := REVOKED, revoked_at := Some now\<rparr>"

definition invalidate :: "Session \<Rightarrow> int \<Rightarrow> Session" where
  "invalidate s now = s\<lparr>is_active := False, status := INVALIDATED, revoked_at := Some now\<rparr>"

definition refresh_activity :: "Session \<Rightarrow> int \<Rightarrow> Session" where
  "refresh_activity s now = s\<lparr>last_activity_at := now\<rparr>"

section \<open>List chunking (app/utils/helpers.py)\<close>

text \<open>
  \<^verbatim>\<open>range(start, stop, step)\<close> for a positive step: \<open>start, start + step, ...\<close>
  while below \<open>stop\<close>.
\<close>

function range_up :: "nat \<Rightarrow> nat \<Rightarrow> nat \<Rightarrow> nat list" where
  "range_up start stop step =
     (if step = 0 \<or> stop \<le> start then []
      else start # range_up (start + step) stop step)"
  by pat_completeness auto
termination
  by (relation "measure (\<lambda>(start, stop, step). stop - start)") auto

declare range_up.simps [simp del]

text \<open>
  \<^verbatim>\<open>range(0, n, step)\<close> as \<open>chunk_list\<close> calls it, with \<open>n = len(items) \<ge> 0\<close>:
  a zero step raises \<open>ValueError\<close>, a negative step counts down from 0 and is
  empty at once.
\<close>

definition py_range0 :: "nat \<Rightarrow> int \<Rightarrow> py_exn + nat list" where
  "py_range0 n step =
     (if step = 0 then Inl ValueError
      else if step < 0 then Inr []
      else Inr (range_up 0 n (nat step)))"

text \<open>The slice \<^verbatim>\<open>items[i:i + k]\<close> for \<open>0 \<le> i\<close> and \<open>0 < k\<close>: it stops at the end of the list.\<close>

definition py_slice :: "'a list \<Rightarrow> nat \<Rightarrow> nat \<Rightarrow> 'a list" where
  "py_slice items i j = take (j - i) (drop i items)"

definition chunk_list :: "'a list \<Rightarrow> int \<Rightarrow> py_exn + 'a list list" where
  "chunk_list items chunk_size =
     (case py_range0 (length items) chunk_size of
        Inl e \<Rightarrow> Inl e
      | Inr idx \<Rightarrow> Inr (map (\<lambda>i. py_slice items i (i + nat chunk_size)) idx))"

section \<open>Risk assessment: combining the signals (app/services/risk_service.py)\<close>

definition combine_signals :: "bool \<Rightarrow> real \<Rightarrow> real \<Rightarrow> real \<Rightarrow> real" where
  "combine_signals device_known deviation ml_score location_metric =
     (let device_factor = (if device_known then 0 else 0.35);
          behavior_factor = min deviation 1 * 0.28;
          ml_factor = min ml_score 1 * 0.27;
          location_factor =
            (if location_metric > 900 then 0.10
             else if location_metric > 200 then 0.02
             else 0)
      in min 1 (device_factor + behavior_factor + ml_factor + location_factor))"

definition map_deviation_to_risk :: "real \<Rightarrow> string" where
  "map_deviation_to_risk deviation =
     (if deviation < 0.2 then ''low''
      else if deviation < 0.5 then ''medium''
      else ''high'')"

text \<open>The thresholds come from the settings, which are parameters here.\<close>

definition map_score_to_level :: "real \<Rightarrow> real \<Rightarrow> real \<Rightarrow> string" where
  "map_score_to_level threshold_low threshold_high score =
     (if score < threshold_low then ''low''
      else if score < threshold_high then ''medium''
      else ''high'')"

section \<open>Behavioural deviation (app/services/risk_service.py)\<close>

text \<open>
  The values \<^verbatim>\<open>json.loads\<close> returns: \<^verbatim>\<open>None\<close>, booleans, numbers, strings, lists
  and dictionaries (with the keys of a dictionary distinct).  The same type stands for
  the loosely typed values of the workflow state further down.
\<close>

datatype json =
    JNull
  | JBool bool
  | JNum real
  | JStr string
  | JArr "json list"
  | JObj "(string \<times> json) list"

record User =
  email :: string
  mfa_enabled :: bool
  behavior_profile :: "string option"

text \<open>\<^verbatim>\<open>d.get(key, default)\<close> on a dictionary.\<close>

definition dict_get :: "(string \<times> json) list \<Rightarrow> string \<Rightarrow> json \<Rightarrow> json" where
  "dict_get d key dflt = (case map_of d key of None \<Rightarrow> dflt | Some v \<Rightarrow> v)"

text \<open>
  \<^verbatim>\<open>profile.get(key, 0.0)\<close>, where \<open>profile\<close> is whatever the stored text parsed
  to: only a dictionary has the method.
\<close>

definition profile_get :: "json \<Rightarrow> string \<Rightarrow> py_exn + json" where
  "profile_get profile key =
     (case profile of
        JObj d \<Rightarrow> Inr (dict_get d key (JNum 0))
      | _ \<Rightarrow> Inl AttributeError)"

text \<open>
  The inner function \<open>dev\<close>, first on a numeric baseline.
\<close>

definition dev_num :: "real \<Rightarrow> real \<Rightarrow> real" where
  "dev_num current baseline =
     (if baseline = 0 then (if current = 0 then 0 else 1)
      else \<bar>current - baseline\<bar> / baseline)"

text \<open>
  The baseline is a parsed value: a number is used as it is, a boolean counts as 1 or
  0, and for anything else \<open>baseline == 0\<close> is false and the subtraction raises
  \<open>TypeError\<close>.
\<close>

fun dev :: "real \<Rightarrow> json \<Rightarrow> py_exn + real" where
  "dev current (JNum baseline) = Inr (dev_num current baseline)"
| "dev current (JBool b) = Inr (dev_num current (if b then 1 else 0))"
| "dev current _ = Inl TypeError"

text \<open>
  The body of the \<^verbatim>\<open>try\<close> block.  \<open>json_loads\<close> is the library's parser, a
  parameter.  A profile that is \<^verbatim>\<open>None\<close> or the empty string is falsy.
\<close>

definition behavior_deviation_body ::
  "(string \<Rightarrow> py_exn + json) \<Rightarrow> User \<Rightarrow> real \<Rightarrow> real \<Rightarrow> real \<Rightarrow> py_exn + real" where
  "behavior_deviation_body json_loads user typing_speed key_interval key_hold =
     (case behavior_profile user of
        None \<Rightarrow> Inr 0.3
      | Some raw \<Rightarrow>
          if raw = [] then Inr 0.3
          else
            and_then (json_loads raw) (\<lambda>profile.
            and_then (profile_get profile ''typing_speed'') (\<lambda>b1.
            and_then (dev typing_speed b1) (\<lambda>d1.
            and_then (profile_get profile ''key_interval'') (\<lambda>b2.
            and_then (dev key_interval b2) (\<lambda>d2.
            and_then (profile_get profile ''key_hold'') (\<lambda>b3.
            and_then (dev key_hold b3) (\<lambda>d3.
            Inr (max (max d1 d2) d3)))))))))"


section \<open>Anomaly detection service (app/services/anomaly_service.py)\<close>

text \<open>
  A fitted or unfitted scikit-learn model is what it answers on a feature vector: for
  the isolation forest \<^verbatim>\<open>score_samples(features)[0]\<close>, for the logistic regression
  \<^verbatim>\<open>predict_proba(features)[0][1]\<close>, or the exception the call raises.  The
  feature vectors have type \<open>'f\<close>, the login events type \<open>'e\<close>.
\<close>

type_synonym 'f model = "'f \<Rightarrow> py_exn + real"

record 'f AnomalyService =
  iso_forest :: "'f model option"
  logistic_reg :: "'f model option"
  is_trained :: bool

text \<open>A model constructed and not fitted: every scoring call raises.\<close>

definition unfitted :: "'f model" where
  "unfitted = (\<lambda>features. Inl NotFittedError)"

text \<open>
  \<open>load_models\<close>.  Each of the two artifact files is absent (\<open>None\<close>) or present,
  and then loading it raises or gives a model.  An exception anywhere leaves the fields
  assigned so far and clears \<open>is_trained\<close>.  The result is the service and the
  returned flag.
\<close>

definition load_models ::
  "'f AnomalyService \<Rightarrow> (py_exn + 'f model) option \<Rightarrow> (py_exn + 'f model) option
   \<Rightarrow> 'f AnomalyService \<times> bool" where
  "load_models self iso_file lr_file =
     (let iso_exists = (iso_file \<noteq> None);
          lr_exists = (lr_file \<noteq> None)
      in case (case iso_file of
                 None \<Rightarrow> Inr self
               | Some (Inl e) \<Rightarrow> Inl (e, self)
               | Some (Inr m) \<Rightarrow> Inr (self\<lparr>iso_forest := Some m\<rparr>)) of
           Inl (e, s) \<Rightarrow> (s\<lparr>is_trained := False\<rparr>, False)
         | Inr s1 \<Rightarrow>
             (case (case lr_file of
                      None \<Rightarrow> Inr s1
                    | Some (Inl e) \<Rightarrow> Inl (e, s1)
                    | Some (Inr m) \<Rightarrow> Inr (s1\<lparr>logistic_reg := Some m\<rparr>)) of
                Inl (e, s) \<Rightarrow> (s\<lparr>is_trained := False\<rparr>, False)
              | Inr s2 \<Rightarrow>
                  (let s3 = s2\<lparr>is_trained := (iso_exists \<and> lr_exists)\<rparr>
                   in if is_trained s3 then (s3, True)
                      else (s3\<lparr>iso_forest := Some unfitted, logistic_reg := Some unfitted\<rparr>,
                            False))))"

text \<open>The constructor: both models \<^verbatim>\<open>None\<close>, not trained, then \<open>load_models\<close>.\<close>

definition new_AnomalyService ::
  "(py_exn + 'f model) option \<Rightarrow> (py_exn + 'f model) option \<Rightarrow> 'f AnomalyService" where
  "new_AnomalyService iso_file lr_file =
     fst (load_models \<lparr>iso_forest = None, logistic_reg = None, is_trained = False\<rparr>
            iso_file lr_file)"

text \<open>
  The body of the \<^verbatim>\<open>try\<close> block of \<open>detect_anomaly\<close>; \<open>extract_features\<close> is
  the feature builder, which catches its own exceptions and always returns a vector.
\<close>

definition detect_anomaly_body ::
  "('e \<Rightarrow> 'f) \<Rightarrow> 'f AnomalyService \<Rightarrow> 'e \<Rightarrow> py_exn + real" where
  "detect_anomaly_body extract_features self login_event =
     (case (is_trained self, iso_forest self, logistic_reg self) of
        (True, Some iso_model, Some lr_model) \<Rightarrow>
          (let features = extract_features login_event
           in and_then (iso_model features) (\<lambda>iso_score.
                let iso_normalized = (iso_score - (- 1.0)) / (0.5 - (- 1.0));
                    iso_normalized = max 0 (min 1 iso_normalized)
                in and_then (lr_model features) (\<lambda>lr_score.
                     Inr (0.5 * lr_score + 0.5 * iso_normalized))))
      | _ \<Rightarrow> Inr 0.5)"

definition detect_anomaly :: "('e \<Rightarrow> 'f) \<Rightarrow> 'f AnomalyService \<Rightarrow> 'e \<Rightarrow> real" where
  "detect_anomaly extract_features self login_event =
     (case detect_anomaly_body extract_features self login_event of
        Inl e \<Rightarrow> 0.5
      | Inr score \<Rightarrow> score)"

section \<open>Risk assessment result and the adaptive MFA wrapper\<close>

text \<open>
  The dictionaries the two \<open>assess_login\<close> methods return.  The keys both have are
  the fields of \<open>assessment\<close>; the risk service adds the anomaly score and the
  location metric, the adaptive wrapper the block decision and the MFA methods.
\<close>

record assessment =
  risk_score :: real
  risk_level :: string
  explanation :: string
  device_fingerprint :: "string option"
  device_known :: bool
  last_seen :: "int option"
  behavior_risk :: string
  mfa_required :: bool

record risk_data = assessment +
  anomaly_score :: real
  location_metric :: real

record mfa_assessment = assessment +
  blocked :: bool
  block_reason :: "string option"
  mfa_methods_required :: "string list"

text \<open>\<open>RiskAssessmentService._error_response\<close>.\<close>

definition risk_error_response :: risk_data where
  "risk_error_response =
     \<lparr>risk_score = 0.5, risk_level = ''medium'',
      explanation = ''Unable to assess risk. Default MFA enabled for safety.'',
      device_fingerprint = None, device_known = False, last_seen = None,
      behavior_risk = ''medium'', mfa_required = True,
      anomaly_score = 0.5, location_metric = 0.0\<rparr>"

text \<open>
  What \<open>RiskAssessmentService.assess_login\<close> gathers before it combines the signals:
  the fingerprint of the event, the device history, the behavioural deviation, the anomaly
  score with its explanation, the location metric, and the explanation text built at
  the end.  The database queries, the anomaly service and the text are not modelled further.
\<close>

record signals =
  sig_fingerprint :: "string option"
  sig_device_known :: bool
  sig_last_seen :: "int option"
  sig_deviation :: real
  sig_ml_score :: real
  sig_location_metric :: real
  sig_explanation :: string

text \<open>
  \<open>RiskAssessmentService.assess_login\<close>: an exception while gathering gives the
  error response, otherwise the signals are combined.  A missing or empty fingerprint
  becomes "unknown".  The low threshold is a setting.
\<close>

definition risk_assess_login :: "real \<Rightarrow> real \<Rightarrow> py_exn + signals \<Rightarrow> risk_data" where
  "risk_assess_login threshold_low threshold_high gathered =
     (case gathered of
        Inl e \<Rightarrow> risk_error_response
      | Inr s \<Rightarrow>
          (let fingerprint =
                 (case sig_fingerprint s of
                    None \<Rightarrow> ''unknown''
                  | Some fp \<Rightarrow> if fp = [] then ''unknown'' else fp);
               deviation = sig_deviation s;
               behavior = map_deviation_to_risk deviation;
               score = combine_signals (sig_device_known s) deviation (sig_ml_score s)
                         (sig_location_metric s)
           in \<lparr>risk_score = score,
               risk_level = map_score_to_level threshold_low threshold_high score,
               explanation = sig_explanation s,
               device_fingerprint = Some fingerprint,
               device_known = sig_device_known s,
               last_seen = sig_last_seen s,
               behavior_risk = behavior,
               mfa_required = (score > threshold_low),
               anomaly_score = sig_ml_score s,
               location_metric = sig_location_metric s\<rparr>))"

text \<open>\<open>RiskBasedAdaptiveMFA._error_response\<close>.\<close>

definition adaptive_error_response :: mfa_assessment where
  "adaptive_error_response =
     \<lparr>risk_score = 0.5, risk_level = ''medium'',
      explanation = ''Unable to assess risk - defaulting to MFA'',
      device_fingerprint = None, device_known = False, last_seen = None,
      behavior_risk = ''medium'', mfa_required = True,
      blocked = False, block_reason = None, mfa_methods_required = [''totp'']\<rparr>"

text \<open>
  \<open>RiskBasedAdaptiveMFA.assess_login\<close>.  \<open>lookup\<close> is the outcome of the user query:
  an exception, no row, or the user; \<open>risk_service\<close> is the risk service's
  \<open>assess_login\<close> for the event at hand, which returns a dictionary for every user.
\<close>

definition adaptive_assess_login ::
  "py_exn + User option \<Rightarrow> (User \<Rightarrow> risk_data) \<Rightarrow> mfa_assessment" where
  "adaptive_assess_login lookup risk_service =
     (case lookup of
        Inl e \<Rightarrow> adaptive_error_response
      | Inr None \<Rightarrow> adaptive_error_response
      | Inr (Some user) \<Rightarrow>
          (let rd = risk_service user;
               mfa_methods =
                 (if mfa_enabled user then (if risk_score rd > 0.3 then [''totp''] else [])
                  else []);
               critical = (risk_score rd > 0.95 \<and> \<not> device_known rd
                           \<and> behavior_risk rd = ''high'')
           in \<lparr>risk_score = risk_score rd,
               risk_level = risk_level rd,
               explanation = explanation rd,
               device_fingerprint = device_fingerprint rd,
               device_known = device_known rd,
               last_seen = last_seen rd,
               behavior_risk = behavior_risk rd,
               mfa_required = (mfa_methods \<noteq> []),
               blocked = critical,
               block_reason =
                 (if critical
                  then Some ''Critical risk: Unknown device with anomalous behavior''
                  else None),
               mfa_methods_required = mfa_methods\<rparr>))"

section \<open>Standalone score utility and the score-risk step\<close>

text \<open>\<open>RiskAssessmentService.calculate_risk_score(anomaly_score, rag_score=None)\<close>.\<close>

definition calculate_risk_score :: "real \<Rightarrow> real option \<Rightarrow> real" where
  "calculate_risk_score anomaly rag_score =
     (case rag_score of
        None \<Rightarrow> max 0 (min 1 anomaly)
      | Some rag \<Rightarrow> max 0 (min 1 ((anomaly + rag) / 2)))"

text \<open>A loosely typed value used as a number: a boolean counts as 1 or 0.\<close>

fun as_float :: "json \<Rightarrow> py_exn + real" where
  "as_float (JNum x) = Inr x"
| "as_float (JBool b) = Inr (if b then 1 else 0)"
| "as_float _ = Inl TypeError"

text \<open>
  A call of \<open>calculate_risk_score\<close> with positional arguments.  The static method
  takes one or two: any other number of arguments raises \<open>TypeError\<close> before the
  body runs.
\<close>

fun call_calculate_risk_score :: "json list \<Rightarrow> py_exn + real" where
  "call_calculate_risk_score [a] =
     and_then (as_float a) (\<lambda>x. Inr (calculate_risk_score x None))"
| "call_calculate_risk_score [a, JNull] =
     and_then (as_float a) (\<lambda>x. Inr (calculate_risk_score x None))"
| "call_calculate_risk_score [a, r] =
     and_then (as_float a) (\<lambda>x.
     and_then (as_float r) (\<lambda>y. Inr (calculate_risk_score x (Some y))))"
| "call_calculate_risk_score _ = Inl TypeError"

text \<open>
  The names bound in the body of class \<open>RiskAssessmentService\<close>, and the lookup of an
  attribute on the class.
\<close>

definition RiskAssessmentService_names :: "string list" where
  "RiskAssessmentService_names =
     [''__init__'', ''assess_login'', ''_ml_risk_score'', ''_combine_signals'',
      ''_map_deviation_to_risk'', ''_map_score_to_level'', ''_generate_explanation'',
      ''_error_response'', ''calculate_risk_score'', ''get_risk_level'', ''functools'']"

definition class_attribute :: "string \<Rightarrow> py_exn + string" where
  "class_attribute name =
     (if name \<in> set RiskAssessmentService_names then Inr name else Inl AttributeError)"

text \<open>
  The workflow state is a dictionary from key names to values.  This is the dictionary
  the score-risk step returns from its \<^verbatim>\<open>except\<close> branch.
\<close>

type_synonym workflow_state = "string \<rightharpoonup> json"

definition score_risk_fallback :: workflow_state where
  "score_risk_fallback =
     [''risk_score'' \<mapsto> JNum 0.5, ''recommendation'' \<mapsto> JStr ''verify'',
      ''action_required'' \<mapsto> JBool True]"

text \<open>
  The body of the \<^verbatim>\<open>try\<close> block of \<open>score_risk_node\<close>.  \<open>state["key"]\<close> raises
  \<open>KeyError\<close> on a missing key, \<open>state.get("user_history")\<close> gives \<^verbatim>\<open>None\<close>.
  \<open>threshold_high\<close> is the setting \<open>RISK_THRESHOLD_HIGH\<close>; \<open>recommend\<close> stands for
  what the attribute \<open>get_recommendation\<close> would compute if the class had it.
\<close>

definition score_risk_body ::
  "real \<Rightarrow> (real \<Rightarrow> string) \<Rightarrow> workflow_state \<Rightarrow> py_exn + workflow_state" where
  "score_risk_body threshold_high recommend state =
     (case state ''anomaly_score'' of
        None \<Rightarrow> Inl KeyError
      | Some a \<Rightarrow>
          (case state ''login_event'' of
             None \<Rightarrow> Inl KeyError
           | Some ev \<Rightarrow>
               (let history = (case state ''user_history'' of None \<Rightarrow> JNull | Some h \<Rightarrow> h)
                in and_then (call_calculate_risk_score [a, ev, history]) (\<lambda>risk.
                   and_then (class_attribute ''get_recommendation'') (\<lambda>attr.
                     Inr (state(''risk_score'' \<mapsto> JNum risk,
                                ''recommendation'' \<mapsto> JStr (recommend risk),
                                ''action_required'' \<mapsto> JBool (risk > threshold_high))))))))"

definition score_risk_node ::
  "real \<Rightarrow> (real \<Rightarrow> string) \<Rightarrow> workflow_state \<Rightarrow> workflow_state" where
  "score_risk_node threshold_high recommend state =
     (case score_risk_body threshold_high recommend state of
        Inl e \<Rightarrow> score_risk_fallback
      | Inr state' \<Rightarrow> state')"

section \<open>Password-reset tokens (app/utils/tokens.py)\<close>

datatype ser_error = BadSignature | SignatureExpired

text \<open>
  Modelled from the spec: the timed, signing serializer (\<open>URLSafeTimedSerializer\<close>
  of the library the module imports) is not among the sources.  A token carries the
  payload, the time of signing in seconds and a signature over both, made with the
  application secret and the salt; the signing function \<open>mac\<close> is a parameter.
  A string that is not of this form is \<open>Malformed\<close>.
\<close>

datatype 'm token = Malformed | Signed string int 'm

text \<open>
  Modelled from the spec: signing stamps the payload with the current time.
\<close>

definition serializer_dumps ::
  "('k \<Rightarrow> string \<Rightarrow> string \<Rightarrow> int \<Rightarrow> 'm) \<Rightarrow> 'k \<Rightarrow> string \<Rightarrow> int \<Rightarrow> string \<Rightarrow> 'm token" where
  "serializer_dumps mac secret salt now payload =
     Signed payload now (mac secret salt payload now)"

text \<open>
  Modelled from the spec: verification fails on a bad signature, then enforces the
  maximum age (a token older than \<open>max_age\<close> seconds, or stamped in the future, has
  expired), and returns the payload on success.
\<close>

definition serializer_loads ::
  "('k \<Rightarrow> string \<Rightarrow> string \<Rightarrow> int \<Rightarrow> 'm) \<Rightarrow> 'k \<Rightarrow> string \<Rightarrow> int \<Rightarrow> 'm token \<Rightarrow> int
   \<Rightarrow> ser_error + string" where
  "serializer_loads mac secret salt now tok max_age =
     (case tok of
        Malformed \<Rightarrow> Inl BadSignature
      | Signed payload ts m \<Rightarrow>
          if m \<noteq> mac secret salt payload ts then Inl BadSignature
          else if now - ts > max_age then Inl SignatureExpired
          else if now - ts < 0 then Inl SignatureExpired
          else Inr payload)"

definition create_password_reset_token ::
  "('k \<Rightarrow> string \<Rightarrow> string \<Rightarrow> int \<Rightarrow> 'm) \<Rightarrow> 'k \<Rightarrow> int \<Rightarrow> string \<Rightarrow> 'm token" where
  "create_password_reset_token mac secret now email_address =
     serializer_dumps mac secret ''password-reset-salt'' now email_address"

text \<open>The default of the parameter \<open>max_age\<close>: 15 minutes.\<close>

definition default_max_age :: int where
  "default_max_age = 900"

definition verify_password_reset_token ::
  "('k \<Rightarrow> string \<Rightarrow> string \<Rightarrow> int \<Rightarrow> 'm) \<Rightarrow> 'k \<Rightarrow> int \<Rightarrow> 'm token \<Rightarrow> int \<Rightarrow> string option" where
  "verify_password_reset_token mac secret now tok max_age =
     (case serializer_loads mac secret ''password-reset-salt'' now tok max_age of
        Inr email_address \<Rightarrow> Some email_address
      | Inl BadSignature \<Rightarrow> None
      | Inl SignatureExpired \<Rightarrow> None)"

section \<open>Device fingerprint (app/services/risk_service.py, app/utils/validators.py)\<close>

text \<open>
  Strings that come from the client are lists of Unicode code points, byte strings are
  lists of naturals below 256.  \<open>ascii\<close> turns a literal into its code points.
\<close>

type_synonym pystr = "nat list"

type_synonym pybytes = "nat list"

definition ascii :: "string \<Rightarrow> pystr" where
  "ascii s = map of_char s"

subsection \<open>\<^verbatim>\<open>str.encode()\<close>: UTF-8\<close>

text \<open>
  One code point.  The surrogates U+D800 to U+DFFF cannot be encoded: the call raises
  \<open>UnicodeEncodeError\<close>.  A Python string holds no code point above U+10FFFF; the
  model refuses such a number too.
\<close>

definition utf8_char :: "nat \<Rightarrow> py_exn + pybytes" where
  "utf8_char c =
     (if c < 0x80 then Inr [c]
      else if c < 0x800 then Inr [0xC0 + c div 64, 0x80 + c mod 64]
      else if 0xD800 \<le> c \<and> c \<le> 0xDFFF then Inl UnicodeEncodeError
      else if c < 0x10000 then
        Inr [0xE0 + c div 4096, 0x80 + c div 64 mod 64, 0x80 + c mod 64]
      else if c < 0x110000 then
        Inr [0xF0 + c div 262144, 0x80 + c div 4096 mod 64, 0x80 + c div 64 mod 64,
             0x80 + c mod 64]
      else Inl UnicodeEncodeError)"

fun encode :: "pystr \<Rightarrow> py_exn + pybytes" where
  "encode [] = Inr []"
| "encode (c # cs) =
     and_then (utf8_char c) (\<lambda>bs. and_then (encode cs) (\<lambda>rest. Inr (bs @ rest)))"

subsection \<open>\<^verbatim>\<open>hashlib.sha256\<close>\<close>

text \<open>
  The hash function of the standard library, written out after FIPS 180-4 on 32-bit
  words.  The round constants are the first 32 bits of the fractional parts of the cube
  roots of the first 64 primes, the initial state those of the square roots of the
  first 8 primes.
\<close>

type_synonym w32 = "32 word"

definition Ch :: "w32 \<Rightarrow> w32 \<Rightarrow> w32 \<Rightarrow> w32" where
  "Ch x y z = (x AND y) XOR (NOT x AND z)"

definition Maj :: "w32 \<Rightarrow> w32 \<Rightarrow> w32 \<Rightarrow> w32" where
  "Maj x y z = (x AND y) XOR (x AND z) XOR (y AND z)"

definition rotr :: "nat \<Rightarrow> w32 \<Rightarrow> w32" where
  "rotr n x = drop_bit n x OR push_bit (32 - n) x"

definition big_sigma0 :: "w32 \<Rightarrow> w32" where
  "big_sigma0 x = rotr 2 x XOR rotr 13 x XOR rotr 22 x"

definition big_sigma1 :: "w32 \<Rightarrow> w32" where
  "big_sigma1 x = rotr 6 x XOR rotr 11 x XOR rotr 25 x"

definition small_sigma0 :: "w32 \<Rightarrow> w32" where
  "small_sigma0 x = rotr 7 x XOR rotr 18 x XOR drop_bit 3 x"

definition small_sigma1 :: "w32 \<Rightarrow> w32" where
  "small_sigma1 x = rotr 17 x XOR rotr 19 x XOR drop_bit 10 x"

definition sha_K :: "w32 list" where
  "sha_K =
     [1116352408, 1899447441, 3049323471, 3921009573,
      961987163, 1508970993, 2453635748, 2870763221,
      3624381080, 310598401, 607225278, 1426881987,
      1925078388, 2162078206, 2614888103, 3248222580,
      3835390401, 4022224774, 264347078, 604807628,
      770255983, 1249150122, 1555081692, 1996064986,
      2554220882, 2821834349, 2952996808, 3210313671,
      3336571891, 3584528711, 113926993, 338241895,
      666307205, 773529912, 1294757372, 1396182291,
      1695183700, 1986661051, 2177026350, 2456956037,
      2730485921, 2820302411, 3259730800, 3345764771,
      3516065817, 3600352804, 4094571909, 275423344,
      430227734, 506948616, 659060556, 883997877,
      958139571, 1322822218, 1537002063, 1747873779,
      1955562222, 2024104815, 2227730452, 2361852424,
      2428436474, 2756734187, 3204031479, 3329325298]"

type_synonym sha_state = "w32 \<times> w32 \<times> w32 \<times> w32 \<times> w32 \<times> w32 \<times> w32 \<times> w32"

definition sha_H0 :: sha_state where
  "sha_H0 = (1779033703, 3144134277, 1013904242, 2773480762, 1359893119, 2600822924, 528734635, 1541459225)"

text \<open>Big-endian bytes of a number, and the word made of big-endian bytes.\<close>

definition be_bytes :: "nat \<Rightarrow> nat \<Rightarrow> pybytes" where
  "be_bytes n v = map (\<lambda>i. v div 256 ^ (n - 1 - i) mod 256) [0..<n]"

definition be_word :: "pybytes \<Rightarrow> w32" where
  "be_word bs = foldl (\<lambda>acc b. push_bit 8 acc + of_nat b) 0 bs"

text \<open>
  Padding: the byte 0x80, zero bytes up to 56 modulo 64, and the length of the message
  in bits on 8 bytes.
\<close>

definition sha_pad :: "pybytes \<Rightarrow> pybytes" where
  "sha_pad msg =
     msg @ [0x80] @ replicate ((119 - length msg mod 64) mod 64) 0
       @ be_bytes 8 (8 * length msg)"

definition sha_blocks :: "pybytes \<Rightarrow> pybytes list" where
  "sha_blocks p = map (\<lambda>i. take 64 (drop (64 * i) p)) [0..<length p div 64]"

definition block_words :: "pybytes \<Rightarrow> w32 list" where
  "block_words blk = map (\<lambda>j. be_word (take 4 (drop (4 * j) blk))) [0..<16]"

text \<open>The message schedule: \<open>n\<close> more words after the ones given.\<close>

primrec schedule :: "nat \<Rightarrow> w32 list \<Rightarrow> w32 list" where
  "schedule 0 w = w"
| "schedule (Suc n) w =
     schedule n
       (w @ [small_sigma1 (w ! (length w - 2)) + w ! (length w - 7)
             + small_sigma0 (w ! (length w - 15)) + w ! (length w - 16)])"

definition sha_round :: "sha_state \<Rightarrow> w32 \<times> w32 \<Rightarrow> sha_state" where
  "sha_round s kw =
     (case s of (a, b, c, d, e, f, g, h) \<Rightarrow>
        (case kw of (k, w) \<Rightarrow>
           (let t1 = h + big_sigma1 e + Ch e f g + k + w;
                t2 = big_sigma0 a + Maj a b c
            in (t1 + t2, a, b, c, d + t1, e, f, g))))"

definition sha_add :: "sha_state \<Rightarrow> sha_state \<Rightarrow> sha_state" where
  "sha_add s t =
     (case s of (a, b, c, d, e, f, g, h) \<Rightarrow>
        (case t of (a', b', c', d', e', f', g', h') \<Rightarrow>
           (a + a', b + b', c + c', d + d', e + e', f + f', g + g', h + h')))"

definition sha_compress :: "sha_state \<Rightarrow> pybytes \<Rightarrow> sha_state" where
  "sha_compress s blk =
     sha_add s (foldl sha_round s (zip sha_K (schedule 48 (block_words blk))))"

definition sha_digest :: "sha_state \<Rightarrow> pybytes" where
  "sha_digest s =
     (case s of (a, b, c, d, e, f, g, h) \<Rightarrow>
        concat (map (\<lambda>w. be_bytes 4 (unat w)) [a, b, c, d, e, f, g, h]))"

definition sha256 :: "pybytes \<Rightarrow> pybytes" where
  "sha256 msg = sha_digest (foldl sha_compress sha_H0 (sha_blocks (sha_pad msg)))"

text \<open>\<^verbatim>\<open>.hexdigest()\<close>: two lowercase hexadecimal digits for each byte.\<close>

definition hexdigit :: "nat \<Rightarrow> nat" where
  "hexdigit n = of_char (''0123456789abcdef'' ! n)"

definition hexdigest :: "pybytes \<Rightarrow> pystr" where
  "hexdigest bs = concat (map (\<lambda>b. [hexdigit (b div 16), hexdigit (b mod 16)]) bs)"

subsection \<open>The fingerprint and its validator\<close>

text \<open>
  \<open>calculate_fingerprint\<close>.  The arguments are strings, for which \<^verbatim>\<open>x or ''\<close> is
  \<open>x\<close>.  \<open>fingerprint_raw\<close> is the formatted string that is hashed.  When encoding
  it raises, the \<^verbatim>\<open>except\<close> branch hashes the bytes of "unknown".
\<close>

definition fingerprint_raw :: "pystr \<Rightarrow> pystr \<Rightarrow> pystr \<Rightarrow> pystr" where
  "fingerprint_raw user_agent ip_address device_id =
     user_agent @ ascii ''|'' @ ip_address @ ascii ''|'' @ device_id"

definition calculate_fingerprint :: "pystr \<Rightarrow> pystr \<Rightarrow> pystr \<Rightarrow> pystr" where
  "calculate_fingerprint user_agent ip_address device_id =
     (case encode (fingerprint_raw user_agent ip_address device_id) of
        Inr raw \<Rightarrow> hexdigest (sha256 raw)
      | Inl e \<Rightarrow> hexdigest (sha256 (ascii ''unknown'')))"

text \<open>The character class \<^verbatim>\<open>[a-zA-Z0-9]\<close>.\<close>

definition alnum :: "nat \<Rightarrow> bool" where
  "alnum c =
     ((of_char CHR ''a'' \<le> c \<and> c \<le> of_char CHR ''z'')
      \<or> (of_char CHR ''A'' \<le> c \<and> c \<le> of_char CHR ''Z'')
      \<or> (of_char CHR ''0'' \<le> c \<and> c \<le> of_char CHR ''9''))"

text \<open>
  Where \<^verbatim>\<open>$\<close> matches (no \<open>MULTILINE\<close> flag): at the end of the string, and just
  before a newline that is the last character.  The argument is the rest of the
  string at the position tried.
\<close>

definition at_dollar :: "pystr \<Rightarrow> bool" where
  "at_dollar rest = (rest = [] \<or> rest = [10])"

text \<open>
  \<open>validate_device_fingerprint\<close>: \<^verbatim>\<open>re.match(r'^[a-zA-Z0-9]{32}$', fingerprint)\<close>,
  which matches at the start of the string only.  The argument is a string, so the
  \<open>isinstance\<close> test passes.
\<close>

definition validate_device_fingerprint :: "pystr \<Rightarrow> bool" where
  "validate_device_fingerprint fingerprint =
     (32 \<le> length fingerprint
      \<and> list_all alnum (take 32 fingerprint)
      \<and> at_dollar (drop 32 fingerprint))"

subsection \<open>Reading UTF-8 back\<close>



section \<open>Properties of the combined risk score\<close>

lemma combine_signals_nonneg:
  assumes "0 \<le> deviation" and "0 \<le> ml_score"
  shows "0 \<le> combine_signals known deviation ml_score speed"
proof -
  have b: "0 \<le> min deviation 1 * 0.28"
    using assms(1) by simp
  have m: "0 \<le> min ml_score 1 * 0.27"
    using assms(2) by simp
  have d: "(0::real) \<le> (if known then 0 else 0.35)"
    by simp
  have l: "(0::real) \<le> (if speed > 900 then 0.10
                         else if speed > 200 then 0.02 else 0)"
    by simp
  from b m d l show ?thesis
    unfolding combine_signals_def Let_def by linarith
qed

lemma combine_signals_le_one:
  "combine_signals known deviation ml_score speed \<le> 1"
  unfolding combine_signals_def Let_def by (rule min.cobounded1)

text \<open>
  C1.  The combined risk score is \<open>min(1.0, device_factor + behavior_factor + ml_factor
  + location_factor)\<close> with \<open>device_factor\<close> 0.35 for an unknown device and 0 otherwise,
  \<open>behavior_factor = min(deviation, 1.0) * 0.28\<close>, \<open>ml_factor = min(ml_score, 1.0) * 0.27\<close>,
  and \<open>location_factor\<close> 0.10 above 900 km/h, 0.02 above 200 and up to 900 km/h, and 0
  otherwise.  For a deviation and an anomaly score in [0,1] and a speed in [0,2000] the
  result lies in [0,1].
\<close>

theorem combine_signals_formula:
  "combine_signals known deviation ml_score speed =
     min 1 ((if known then 0 else 0.35)
            + min deviation 1 * 0.28
            + min ml_score 1 * 0.27
            + (if speed > 900 then 0.10
               else if 200 < speed \<and> speed \<le> 900 then 0.02
               else 0))
   \<and> (0 \<le> deviation \<and> deviation \<le> 1 \<and> 0 \<le> ml_score \<and> ml_score \<le> 1
        \<and> 0 \<le> speed \<and> speed \<le> 2000 \<longrightarrow>
        0 \<le> combine_signals known deviation ml_score speed
        \<and> combine_signals known deviation ml_score speed \<le> 1)"
proof -
  have "(if speed > 900 then (0.10::real)
         else if speed > 200 then 0.02 else 0)
        = (if speed > 900 then 0.10
           else if 200 < speed \<and> speed \<le> 900 then 0.02 else 0)"
    by simp
  then have f: "combine_signals known deviation ml_score speed =
     min 1 ((if known then 0 else 0.35)
            + min deviation 1 * 0.28
            + min ml_score 1 * 0.27
            + (if speed > 900 then 0.10
               else if 200 < speed \<and> speed \<le> 900 then 0.02
               else 0))"
    unfolding combine_signals_def Let_def by (simp only:)
  show ?thesis
    using f combine_signals_nonneg combine_signals_le_one by blast
qed

theorem combine_signals_formula_witness:
  "combine_signals False 0.5 0.5 1000 = 0.725
   \<and> combine_signals True 0 0 0 = 0
   \<and> combine_signals False 1 1 2000 = 1
   \<and> combine_signals True 1 1 200 = 0.55
   \<and> combine_signals True 1 1 900 = 0.57
   \<and> 0 \<le> combine_signals False 0.5 0.5 1000
   \<and> combine_signals False 0.5 0.5 1000 \<le> 1"
  using combine_signals_formula [of False "0.5" "0.5" 1000]
    combine_signals_formula [of True 0 0 0]
    combine_signals_formula [of False 1 1 2000]
    combine_signals_formula [of True 1 1 200]
    combine_signals_formula [of True 1 1 900]
  by simp

section \<open>Properties of the adaptive MFA decision\<close>

text \<open>
  C2.  For an existing user, the assessment of the adaptive MFA engine requires
  exactly the method "totp" when the user has MFA enabled and the risk score is above
  0.3, and no method otherwise; it is blocked, with the reason "Critical risk: Unknown
  device with anomalous behavior", exactly when the risk score is above 0.95, the
  device is unknown and the behaviour risk is "high".
\<close>

theorem adaptive_mfa_decision:
  "mfa_methods_required (adaptive_assess_login (Inr (Some user)) risk_service) =
     (if mfa_enabled user
         \<and> risk_score (adaptive_assess_login (Inr (Some user)) risk_service) > 0.3
      then [''totp''] else [])
   \<and> (blocked (adaptive_assess_login (Inr (Some user)) risk_service) \<longleftrightarrow>
        risk_score (adaptive_assess_login (Inr (Some user)) risk_service) > 0.95
        \<and> \<not> device_known (adaptive_assess_login (Inr (Some user)) risk_service)
        \<and> behavior_risk (adaptive_assess_login (Inr (Some user)) risk_service) = ''high'')
   \<and> block_reason (adaptive_assess_login (Inr (Some user)) risk_service) =
        (if blocked (adaptive_assess_login (Inr (Some user)) risk_service)
         then Some ''Critical risk: Unknown device with anomalous behavior'' else None)
   \<and> risk_score (adaptive_assess_login (Inr (Some user)) risk_service)
        = risk_score (risk_service user)
   \<and> device_known (adaptive_assess_login (Inr (Some user)) risk_service)
        = device_known (risk_service user)
   \<and> behavior_risk (adaptive_assess_login (Inr (Some user)) risk_service)
        = behavior_risk (risk_service user)"
  by (simp add: adaptive_assess_login_def Let_def)

lemma critical_signals_assessment:
  "risk_assess_login 0.3 0.7
     (Inr \<lparr>sig_fingerprint = Some ''f00'', sig_device_known = False, sig_last_seen = None,
           sig_deviation = 1, sig_ml_score = 1, sig_location_metric = 1000,
           sig_explanation = ''High risk login detected.''\<rparr>)
   = \<lparr>risk_score = 1, risk_level = ''high'', explanation = ''High risk login detected.'',
      device_fingerprint = Some ''f00'', device_known = False, last_seen = None,
      behavior_risk = ''high'', mfa_required = True, anomaly_score = 1,
      location_metric = 1000\<rparr>"
  by (simp add: risk_assess_login_def combine_signals_def map_deviation_to_risk_def
      map_score_to_level_def)

lemma risk_assess_login_error:
  "risk_assess_login threshold_low threshold_high (Inl e) = risk_error_response"
  by (simp add: risk_assess_login_def)

theorem adaptive_mfa_decision_witness:
  "mfa_methods_required
     (adaptive_assess_login
        (Inr (Some \<lparr>email = ''a@b.c'', mfa_enabled = True, behavior_profile = None\<rparr>))
        (\<lambda>u. risk_assess_login 0.3 0.7
           (Inr \<lparr>sig_fingerprint = Some ''f00'', sig_device_known = False,
                 sig_last_seen = None, sig_deviation = 1, sig_ml_score = 1,
                 sig_location_metric = 1000,
                 sig_explanation = ''High risk login detected.''\<rparr>))) = [''totp'']
   \<and> blocked
     (adaptive_assess_login
        (Inr (Some \<lparr>email = ''a@b.c'', mfa_enabled = True, behavior_profile = None\<rparr>))
        (\<lambda>u. risk_assess_login 0.3 0.7
           (Inr \<lparr>sig_fingerprint = Some ''f00'', sig_device_known = False,
                 sig_last_seen = None, sig_deviation = 1, sig_ml_score = 1,
                 sig_location_metric = 1000,
                 sig_explanation = ''High risk login detected.''\<rparr>)))
   \<and> mfa_methods_required
     (adaptive_assess_login
        (Inr (Some \<lparr>email = ''a@b.c'', mfa_enabled = False, behavior_profile = None\<rparr>))
        (\<lambda>u. risk_assess_login 0.3 0.7 (Inl OtherError))) = []
   \<and> \<not> blocked
     (adaptive_assess_login
        (Inr (Some \<lparr>email = ''a@b.c'', mfa_enabled = False, behavior_profile = None\<rparr>))
        (\<lambda>u. risk_assess_login 0.3 0.7 (Inl OtherError)))"
  using adaptive_mfa_decision [where
      user = "\<lparr>email = ''a@b.c'', mfa_enabled = True, behavior_profile = None\<rparr>"
      and risk_service = "\<lambda>u. risk_assess_login 0.3 0.7
           (Inr \<lparr>sig_fingerprint = Some ''f00'', sig_device_known = False,
                 sig_last_seen = None, sig_deviation = 1, sig_ml_score = 1,
                 sig_location_metric = 1000,
                 sig_explanation = ''High risk login detected.''\<rparr>)"]
    adaptive_mfa_decision [where
      user = "\<lparr>email = ''a@b.c'', mfa_enabled = False, behavior_profile = None\<rparr>"
      and risk_service = "\<lambda>u. risk_assess_login 0.3 0.7 (Inl OtherError)"]
  by (simp add: critical_signals_assessment risk_assess_login_error risk_error_response_def
      adaptive_assess_login_def)

lemma adaptive_unknown_user:
  "adaptive_assess_login (Inr None) risk_service = adaptive_error_response
   \<and> adaptive_assess_login (Inl e) risk_service = adaptive_error_response"
  by (simp add: adaptive_assess_login_def)

section \<open>Properties of anomaly scoring\<close>

lemma new_service_untrained:
  "iso_file = None \<or> lr_file = None \<Longrightarrow> \<not> is_trained (new_AnomalyService iso_file lr_file)"
  by (auto simp add: new_AnomalyService_def load_models_def Let_def split: option.splits sum.splits)

lemma new_service_trained:
  "new_AnomalyService (Some (Inr f)) (Some (Inr g)) =
     \<lparr>iso_forest = Some f, logistic_reg = Some g, is_trained = True\<rparr>"
  by (simp add: new_AnomalyService_def load_models_def)

lemma new_service_is_trained_iff:
  "is_trained (new_AnomalyService iso_file lr_file) \<longleftrightarrow>
     (\<exists>f g. iso_file = Some (Inr f) \<and> lr_file = Some (Inr g))"
  by (auto simp add: new_AnomalyService_def load_models_def Let_def split: option.splits sum.splits)

lemma detect_untrained:
  "\<not> is_trained self \<Longrightarrow> detect_anomaly extract_features self ev = 0.5"
  by (simp add: detect_anomaly_def detect_anomaly_body_def split: option.splits)

lemma detect_on_error:
  "detect_anomaly_body extract_features self ev = Inl e \<Longrightarrow>
   detect_anomaly extract_features self ev = 0.5"
  by (simp add: detect_anomaly_def)

lemma detect_trained:
  assumes "is_trained self" and "iso_forest self = Some f" and "logistic_reg self = Some g"
    and "f (extract_features ev) = Inr iso_score" and "g (extract_features ev) = Inr lr_score"
  shows "detect_anomaly extract_features self ev =
           0.5 * lr_score + 0.5 * max 0 (min 1 ((iso_score - (- 1.0)) / (0.5 - (- 1.0))))"
  using assms
  by (simp add: detect_anomaly_def detect_anomaly_body_def and_then_def Let_def)

lemma detect_model_raises:
  assumes "is_trained self" and "iso_forest self = Some f" and "logistic_reg self = Some g"
    and "f (extract_features ev) = Inl e \<or> g (extract_features ev) = Inl e"
  shows "detect_anomaly extract_features self ev = 0.5"
  using assms
  by (auto simp add: detect_anomaly_def detect_anomaly_body_def and_then_def Let_def
      split: sum.splits)

text \<open>
  C3.  Scoring a single event returns exactly 0.5 when the service is untrained, as a
  service constructed with no artifact files is, and when an exception occurs while
  scoring.  A trained service returns \<open>0.5 * lr_score + 0.5 * clamp((iso_score - (-1.0))
  / (0.5 - (-1.0)), 0, 1)\<close> with \<open>lr_score\<close> the positive-class probability of the
  classifier and \<open>iso_score\<close> the raw outlier score.
\<close>

theorem detect_anomaly_spec:
  "detect_anomaly extract_features (new_AnomalyService None None) ev = 0.5
   \<and> (\<not> is_trained self \<longrightarrow> detect_anomaly extract_features self ev = 0.5)
   \<and> (detect_anomaly_body extract_features self ev = Inl e \<longrightarrow>
        detect_anomaly extract_features self ev = 0.5)
   \<and> (is_trained self \<and> iso_forest self = Some f \<and> logistic_reg self = Some g
        \<and> f (extract_features ev) = Inr iso_score
        \<and> g (extract_features ev) = Inr lr_score \<longrightarrow>
        detect_anomaly extract_features self ev =
          0.5 * lr_score + 0.5 * max 0 (min 1 ((iso_score - (- 1.0)) / (0.5 - (- 1.0)))))
   \<and> (is_trained self \<and> iso_forest self = Some f \<and> logistic_reg self = Some g
        \<and> (f (extract_features ev) = Inl e \<or> g (extract_features ev) = Inl e) \<longrightarrow>
        detect_anomaly extract_features self ev = 0.5)"
proof -
  have fresh: "detect_anomaly extract_features (new_AnomalyService None None) ev = 0.5"
    by (rule detect_untrained) (simp add: new_service_untrained)
  show ?thesis
    using fresh detect_untrained [of self extract_features ev]
      detect_on_error [of extract_features self ev e]
      detect_trained [of self f g extract_features ev iso_score lr_score]
      detect_model_raises [of self f g extract_features ev e]
    by blast
qed

theorem detect_anomaly_spec_witness:
  "detect_anomaly (\<lambda>ev. ev) (new_AnomalyService None None) (0::nat) = 0.5
   \<and> detect_anomaly (\<lambda>ev. ev) (new_AnomalyService (Some (Inr (\<lambda>x. Inr 0.5))) None) (0::nat) = 0.5
   \<and> detect_anomaly (\<lambda>ev. ev)
        (new_AnomalyService (Some (Inr (\<lambda>x. Inr (- 0.4)))) (Some (Inr (\<lambda>x. Inl ValueError))))
        (0::nat) = 0.5
   \<and> detect_anomaly (\<lambda>ev. ev)
        (new_AnomalyService (Some (Inr (\<lambda>x. Inr (- 0.4)))) (Some (Inr (\<lambda>x. Inr 0.8))))
        (0::nat) = 0.6"
  using detect_anomaly_spec [where extract_features = "\<lambda>ev. ev" and ev = "0::nat"
      and self = "new_AnomalyService (Some (Inr (\<lambda>x. Inr 0.5))) None"]
    detect_anomaly_spec [where extract_features = "\<lambda>ev. ev" and ev = "0::nat"
      and self = "new_AnomalyService (Some (Inr (\<lambda>x. Inr (- 0.4)))) (Some (Inr (\<lambda>x. Inl ValueError)))"
      and f = "\<lambda>x. Inr (- 0.4)" and g = "\<lambda>x. Inl ValueError" and e = ValueError]
    detect_anomaly_spec [where extract_features = "\<lambda>ev. ev" and ev = "0::nat"
      and self = "new_AnomalyService (Some (Inr (\<lambda>x. Inr (- 0.4)))) (Some (Inr (\<lambda>x. Inr 0.8)))"
      and f = "\<lambda>x. Inr (- 0.4)" and g = "\<lambda>x. Inr 0.8"
      and iso_score = "- 0.4" and lr_score = "0.8"]
  by (simp add: new_AnomalyService_def load_models_def detect_anomaly_body_def and_then_def
      unfitted_def)

section \<open>Properties of the session model\<close>

text \<open>
  C4.  A session is valid exactly when its active flag is set, the current time is
  not past its expiry and its status is "active".  A newly created session that has
  not expired is valid.  After \<open>revoke\<close> the session is not valid at any time, its
  status is "revoked", the active flag is cleared and the revocation time is set.
  Once the stored expiry has passed, the session is not valid, revoked or not.
\<close>

theorem session_lifecycle:
  "(is_valid s now \<longleftrightarrow> is_active s \<and> \<not> now > expires_at s \<and> status_value (status s) = ''active'')
   \<and> (now \<le> expires \<longrightarrow> is_valid (new_session expires created) now)
   \<and> \<not> is_valid (revoke s now) later
   \<and> status_value (status (revoke s now)) = ''revoked''
   \<and> \<not> is_active (revoke s now)
   \<and> revoked_at (revoke s now) = Some now
   \<and> (expires_at s < now \<longrightarrow> \<not> is_valid s now)"
  by (cases "status s") (simp_all add: is_valid_def is_expired_def new_session_def revoke_def)

theorem session_lifecycle_witness:
  "is_valid (new_session 1000 0) 500
   \<and> \<not> is_valid (revoke (new_session 1000 0) 500) 600
   \<and> status_value (status (revoke (new_session 1000 0) 500)) = ''revoked''
   \<and> revoked_at (revoke (new_session 1000 0) 500) = Some 500
   \<and> \<not> is_valid (new_session 1000 0) 1001"
  using session_lifecycle [of "new_session 1000 0" 500 1000 0 600]
    session_lifecycle [of "new_session 1000 0" 1001 1000 0 600]
  by (simp add: new_session_def)

section \<open>Properties of the behavioural deviation\<close>





lemma deviation_not_a_dict:
  assumes "behavior_profile user = Some raw" and "raw \<noteq> []" and "json_loads raw = Inr p"
    and "\<forall>d. p \<noteq> JObj d"
  shows "behavior_deviation_body json_loads user ts ki kh = Inl AttributeError"
  using assms by (cases p) (simp_all add: behavior_deviation_body_def and_then_def profile_get_def)




section \<open>Properties of password-reset tokens\<close>

lemma verify_fresh_token:
  assumes "0 \<le> now' - now" and "now' - now \<le> max_age"
  shows "verify_password_reset_token mac secret now'
           (create_password_reset_token mac secret now email_address) max_age
         = Some email_address"
  using assms
  by (simp add: verify_password_reset_token_def create_password_reset_token_def
      serializer_loads_def serializer_dumps_def)

lemma verify_bad_signature:
  assumes "m \<noteq> mac secret ''password-reset-salt'' payload ts"
  shows "verify_password_reset_token mac secret now' (Signed payload ts m) max_age = None"
  using assms
  by (simp add: verify_password_reset_token_def serializer_loads_def)

lemma verify_malformed:
  "verify_password_reset_token mac secret now' Malformed max_age = None"
  by (simp add: verify_password_reset_token_def serializer_loads_def)

lemma verify_expired:
  assumes "now' - now > max_age"
  shows "verify_password_reset_token mac secret now'
           (create_password_reset_token mac secret now email_address) max_age = None"
  using assms
  by (simp add: verify_password_reset_token_def create_password_reset_token_def
      serializer_loads_def serializer_dumps_def)

text \<open>
  C6.  Verifying a freshly created password-reset token within the maximum age returns
  the email address it was created for.  Verification returns \<open>None\<close> when the
  signature of the token is bad, and when it is verified after the maximum age (900
  seconds by default), even with a valid signature.
\<close>

theorem password_reset_token_roundtrip:
  "(0 \<le> now' - now \<and> now' - now \<le> max_age \<longrightarrow>
      verify_password_reset_token mac secret now'
        (create_password_reset_token mac secret now email_address) max_age
      = Some email_address)
   \<and> (m \<noteq> mac secret ''password-reset-salt'' payload ts \<longrightarrow>
        verify_password_reset_token mac secret now' (Signed payload ts m) max_age = None)
   \<and> verify_password_reset_token mac secret now' Malformed max_age = None
   \<and> (now' - now > max_age \<longrightarrow>
        verify_password_reset_token mac secret now'
          (create_password_reset_token mac secret now email_address) max_age = None)
   \<and> (now' - now > default_max_age \<longrightarrow>
        verify_password_reset_token mac secret now'
          (create_password_reset_token mac secret now email_address) default_max_age = None)"
proof (intro conjI impI)
  assume "0 \<le> now' - now \<and> now' - now \<le> max_age"
  then show "verify_password_reset_token mac secret now'
        (create_password_reset_token mac secret now email_address) max_age
      = Some email_address"
    by (simp add: verify_fresh_token)
next
  assume "m \<noteq> mac secret ''password-reset-salt'' payload ts"
  then show "verify_password_reset_token mac secret now' (Signed payload ts m) max_age = None"
    by (rule verify_bad_signature)
next
  show "verify_password_reset_token mac secret now' Malformed max_age = None"
    by (rule verify_malformed)
next
  assume "now' - now > max_age"
  then show "verify_password_reset_token mac secret now'
          (create_password_reset_token mac secret now email_address) max_age = None"
    by (rule verify_expired)
next
  assume "now' - now > default_max_age"
  then show "verify_password_reset_token mac secret now'
          (create_password_reset_token mac secret now email_address) default_max_age = None"
    by (rule verify_expired)
qed

text \<open>A toy signing function for the examples: the signature lists what was signed.\<close>

theorem password_reset_token_roundtrip_witness:
  "verify_password_reset_token (\<lambda>k s p t. (k, s, p, t)) ''key'' 1900
     (create_password_reset_token (\<lambda>k s p t. (k, s, p, t)) ''key'' 1000 ''a@b.c'') 900
     = Some ''a@b.c''
   \<and> verify_password_reset_token (\<lambda>k s p t. (k, s, p, t)) ''key'' 1901
     (create_password_reset_token (\<lambda>k s p t. (k, s, p, t)) ''key'' 1000 ''a@b.c'')
     default_max_age = None
   \<and> verify_password_reset_token (\<lambda>k s p t. (k, s, p, t)) ''key'' 1001
     (Signed ''a@b.c'' 1000 (''other'', ''password-reset-salt'', ''a@b.c'', 1000)) 900 = None"
  using password_reset_token_roundtrip [where mac = "\<lambda>k s p t. (k, s, p, t)"
      and secret = "''key''" and now = 1000 and now' = 1900 and max_age = 900
      and email_address = "''a@b.c''"
      and m = "(''other'', ''password-reset-salt'', ''a@b.c'', 1000)"
      and payload = "''a@b.c''" and ts = 1000]
    password_reset_token_roundtrip [where mac = "\<lambda>k s p t. (k, s, p, t)"
      and secret = "''key''" and now = 1000 and now' = 1901 and max_age = 900
      and email_address = "''a@b.c''"
      and m = "(''other'', ''password-reset-salt'', ''a@b.c'', 1000)"
      and payload = "''a@b.c''" and ts = 1000]
    password_reset_token_roundtrip [where mac = "\<lambda>k s p t. (k, s, p, t)"
      and secret = "''key''" and now = 1000 and now' = 1001 and max_age = 900
      and email_address = "''a@b.c''"
      and m = "(''other'', ''password-reset-salt'', ''a@b.c'', 1000)"
      and payload = "''a@b.c''" and ts = 1000]
  by (simp add: default_max_age_def)

section \<open>The score-risk step of the explanation workflow\<close>

lemma three_arguments_raise: "call_calculate_risk_score [a, b, c] = Inl TypeError"
  by (cases b) simp_all

lemma get_recommendation_missing: "class_attribute ''get_recommendation'' = Inl AttributeError"
  by (simp add: class_attribute_def RiskAssessmentService_names_def)

lemma score_risk_body_raises:
  "\<exists>e. score_risk_body threshold_high recommend state = Inl e"
  by (simp add: score_risk_body_def and_then_def three_arguments_raise Let_def
      split: option.splits)

text \<open>On every state the step returns its fallback dictionary.\<close>

lemma score_risk_node_always_fallback:
  "score_risk_node threshold_high recommend state = score_risk_fallback"
  using score_risk_body_raises [of threshold_high recommend state]
  by (auto simp add: score_risk_node_def)

text \<open>
  C7.  The claim: the score-risk step sets \<open>action_required\<close> to \<open>risk score >
  RISK_THRESHOLD_HIGH\<close>, the score computed by the standalone utility, and falls back
  to score 0.5, recommendation "verify" and action required only on an error.  On the
  state with anomaly score 0.1 and an empty login event, with the high threshold 0.7,
  the utility gives 0.1, which is not above the threshold; the step passes three
  arguments to the utility, which raises, and answers the fallback: action required.
\<close>

theorem score_risk_node_failing_input:
  "score_risk_node 0.7 recommend
     [''anomaly_score'' \<mapsto> JNum 0.1, ''login_event'' \<mapsto> JObj []] ''action_required''
     = Some (JBool True)
   \<and> score_risk_node 0.7 recommend
     [''anomaly_score'' \<mapsto> JNum 0.1, ''login_event'' \<mapsto> JObj []] ''risk_score''
     = Some (JNum 0.5)
   \<and> score_risk_node 0.7 recommend
     [''anomaly_score'' \<mapsto> JNum 0.1, ''login_event'' \<mapsto> JObj []] ''anomaly_score''
     = None
   \<and> calculate_risk_score 0.1 None = 0.1
   \<and> \<not> calculate_risk_score 0.1 None > 0.7"
  by (simp add: score_risk_node_always_fallback score_risk_fallback_def
      calculate_risk_score_def)

section \<open>Shape of the fingerprint and the validator\<close>

lemma length_be_bytes: "length (be_bytes n v) = n"
  by (simp add: be_bytes_def)


lemma length_sha_digest: "length (sha_digest s) = 32"
  by (simp add: sha_digest_def length_be_bytes split: prod.splits)


lemma length_sha256: "length (sha256 msg) = 32"
  by (simp add: sha256_def length_sha_digest)


lemma length_hexdigest: "length (hexdigest bs) = 2 * length bs"
  by (induction bs) (simp_all add: hexdigest_def)



lemma fingerprint_is_digest:
  "\<exists>msg. calculate_fingerprint ua ip dev_id = hexdigest (sha256 msg)"
  by (cases "encode (fingerprint_raw ua ip dev_id)") (auto simp add: calculate_fingerprint_def)

lemma length_fingerprint: "length (calculate_fingerprint ua ip dev_id) = 64"
  using fingerprint_is_digest [of ua ip dev_id]
  by (auto simp add: length_hexdigest length_sha256)


lemma validator_accepts_iff:
  "validate_device_fingerprint fp \<longleftrightarrow>
     (length fp = 32 \<and> list_all alnum fp)
     \<or> (length fp = 33 \<and> list_all alnum (take 32 fp) \<and> fp ! 32 = 10)"
proof -
  have a: "drop 32 fp = [] \<longleftrightarrow> length fp \<le> 32"
    by simp
  have b: "drop 32 fp = [10] \<longleftrightarrow> length fp = 33 \<and> fp ! 32 = 10"
  proof
    assume h: "drop 32 fp = [10]"
    then have "length (drop 32 fp) = 1" by simp
    then have l: "length fp = 33" by simp
    then have "fp ! 32 = hd (drop 32 fp)"
      by (simp add: hd_drop_conv_nth)
    with h l show "length fp = 33 \<and> fp ! 32 = 10" by simp
  next
    assume h: "length fp = 33 \<and> fp ! 32 = 10"
    then have "drop 32 fp = [fp ! 32]"
      by (metis Cons_nth_drop_Suc drop_all lessI numeral_eq_Suc pred_numeral_simps(3) order_refl
          Suc_eq_plus1 add.commute)
    with h show "drop 32 fp = [10]" by simp
  qed
  show ?thesis
    unfolding validate_device_fingerprint_def at_dollar_def a b
    by auto
qed

lemma validator_rejects_fingerprint:
  "\<not> validate_device_fingerprint (calculate_fingerprint ua ip dev_id)"
  by (simp add: validator_accepts_iff length_fingerprint)

section \<open>UTF-8 encoding loses nothing\<close>













section \<open>Properties of the device fingerprint\<close>




text \<open>
  The separator may occur in the inputs, so two triples that differ in two places can be
  formatted to the same string.
\<close>

lemma fingerprint_separator_collision:
  "calculate_fingerprint (ascii ''a|b'') (ascii ''c'') dev_id
     = calculate_fingerprint (ascii ''a'') (ascii ''b|c'') dev_id"
  by (simp add: calculate_fingerprint_def fingerprint_raw_def ascii_def)



section \<open>The fingerprint validator\<close>

text \<open>
  C9.  The claim: the validator accepts exactly the strings of exactly 32 alphanumeric
  characters.  The pattern ends in \<^verbatim>\<open>$\<close>, which also matches before a final
  newline: the validator accepts the 33 characters made of 32 letters and a newline.
\<close>

theorem validator_accepts_trailing_newline:
  "validate_device_fingerprint (ascii ''aaaaaaaaaaaaaaaaaaaaaaaaaaaaaaaa'' @ [10])
   \<and> length (ascii ''aaaaaaaaaaaaaaaaaaaaaaaaaaaaaaaa'' @ [10]) = 33
   \<and> \<not> list_all alnum (ascii ''aaaaaaaaaaaaaaaaaaaaaaaaaaaaaaaa'' @ [10])"
  by (simp add: validate_device_fingerprint_def ascii_def alnum_def at_dollar_def)

section \<open>Properties of list chunking\<close>

lemma range_up_stop: "stop \<le> start \<Longrightarrow> range_up start stop step = []"
  by (subst range_up.simps) simp

lemma range_up_step:
  "0 < step \<Longrightarrow> start < stop \<Longrightarrow>
   range_up start stop step = start # range_up (start + step) stop step"
  by (subst range_up.simps) simp

lemma range_up_empty: "0 < k \<Longrightarrow> range_up i n k = [] \<longleftrightarrow> n \<le> i"
  by (subst range_up.simps) simp

lemma take_drop_step: "take step (drop start xs) @ drop (start + step) xs = drop start xs"
proof -
  have "drop (start + step) xs = drop step (drop start xs)"
    by (simp add: add.commute)
  then show ?thesis by (simp only: append_take_drop_id)
qed

text \<open>The chunks taken from index \<open>i\<close> on make up the list from \<open>i\<close> on.\<close>

lemma concat_range_up:
  "0 < k \<Longrightarrow>
   concat (map (\<lambda>j. py_slice xs j (j + k)) (range_up i (length xs) k)) = drop i xs"
proof (induction i "length xs" k rule: range_up.induct)
  case (1 start step)
  show ?case
  proof (cases "length xs \<le> start")
    case True
    then show ?thesis by (simp add: range_up_stop)
  next
    case False
    then have "\<not> (step = 0 \<or> length xs \<le> start)"
      using 1(2) by simp
    then have IH: "concat (map (\<lambda>j. py_slice xs j (j + step))
        (range_up (start + step) (length xs) step)) = drop (start + step) xs"
      using 1(1) 1(2) by blast
    have "range_up start (length xs) step = start # range_up (start + step) (length xs) step"
      using False 1(2) by (simp add: range_up_step)
    then show ?thesis
      using IH by (simp add: py_slice_def take_drop_step)
  qed
qed

text \<open>Every chunk but the last is full, and the last one is not empty.\<close>

lemma chunks_shape:
  "0 < k \<Longrightarrow>
   (\<forall>c \<in> set (butlast (map (\<lambda>j. py_slice xs j (j + k)) (range_up i (length xs) k))).
      length c = k)
   \<and> (i < length xs \<longrightarrow>
        last (map (\<lambda>j. py_slice xs j (j + k)) (range_up i (length xs) k)) \<noteq> [])"
proof (induction i "length xs" k rule: range_up.induct)
  case (1 start step)
  let ?f = "\<lambda>j. py_slice xs j (j + step)"
  show ?case
  proof (cases "length xs \<le> start")
    case True
    then show ?thesis by (simp add: range_up_stop)
  next
    case False
    then have "\<not> (step = 0 \<or> length xs \<le> start)"
      using 1(2) by simp
    then have IH:
      "(\<forall>c \<in> set (butlast (map ?f (range_up (start + step) (length xs) step))). length c = step)
       \<and> (start + step < length xs \<longrightarrow>
            last (map ?f (range_up (start + step) (length xs) step)) \<noteq> [])"
      using 1(1) 1(2) by blast
    have unf: "range_up start (length xs) step = start # range_up (start + step) (length xs) step"
      using False 1(2) by (simp add: range_up_step)
    show ?thesis
    proof (cases "length xs \<le> start + step")
      case True
      then have "range_up (start + step) (length xs) step = []"
        by (simp add: range_up_stop)
      with unf False 1(2) show ?thesis
        by (simp add: py_slice_def)
    next
      case b: False
      then have ne: "range_up (start + step) (length xs) step \<noteq> []"
        using 1(2) by (simp add: range_up_empty)
      have len: "length (?f start) = step"
        using b by (simp add: py_slice_def)
      from unf IH b ne len show ?thesis
        by simp
    qed
  qed
qed

lemma chunk_list_example: "chunk_list [1, 2, 3, 4, 5 :: nat] 2 = Inr [[1, 2], [3, 4], [5]]"
  by (simp add: chunk_list_def py_range0_def range_up_step range_up_stop py_slice_def)

lemma chunk_list_zero_size: "chunk_list items 0 = Inl ValueError"
  by (simp add: chunk_list_def py_range0_def)

lemma chunk_list_negative_size: "chunk_size < 0 \<Longrightarrow> chunk_list items chunk_size = Inr []"
  by (simp add: chunk_list_def py_range0_def)

text \<open>
  C10.  For every list and every chunk size greater than 0, \<open>chunk_list\<close> returns
  chunks whose concatenation is the list; every chunk except possibly the last has
  exactly \<open>chunk_size\<close> elements, and when the list is not empty there is a last chunk
  and it is not empty.
\<close>

theorem chunk_list_partition:
  assumes "0 < chunk_size"
  shows "\<exists>chunks. chunk_list items chunk_size = Inr chunks
           \<and> concat chunks = items
           \<and> (\<forall>c \<in> set (butlast chunks). int (length c) = chunk_size)
           \<and> (items \<noteq> [] \<longrightarrow> chunks \<noteq> [] \<and> last chunks \<noteq> [])"
proof -
  let ?k = "nat chunk_size"
  let ?chunks = "map (\<lambda>i. py_slice items i (i + ?k)) (range_up 0 (length items) ?k)"
  from assms have k: "0 < ?k" by simp
  have eq: "chunk_list items chunk_size = Inr ?chunks"
    using assms by (simp add: chunk_list_def py_range0_def)
  have c: "concat ?chunks = items"
    using concat_range_up [OF k, of items 0] by simp
  have s: "(\<forall>c \<in> set (butlast ?chunks). length c = ?k)
           \<and> (0 < length items \<longrightarrow> last ?chunks \<noteq> [])"
    by (rule chunks_shape [OF k])
  have ne: "items \<noteq> [] \<longrightarrow> ?chunks \<noteq> []"
    using k by (simp add: range_up_empty)
  have s1: "\<forall>c \<in> set (butlast ?chunks). int (length c) = chunk_size"
    using s assms by auto
  have s2: "items \<noteq> [] \<longrightarrow> last ?chunks \<noteq> []"
    using s by simp
  show ?thesis
    using eq c s1 s2 ne by blast
qed

theorem chunk_list_partition_witness:
  "(0::int) < 2
   \<and> (\<exists>chunks. chunk_list [1, 2, 3, 4, 5 :: nat] 2 = Inr chunks
         \<and> concat chunks = [1, 2, 3, 4, 5]
         \<and> chunks = [[1, 2], [3, 4], [5]])"
  using chunk_list_partition [of 2 "[1, 2, 3, 4, 5 :: nat]"] chunk_list_example
  by simp

end
